theory Spec2Isabelle
  imports Main
begin

section \<open>Python values, exceptions and string formatting\<close>

text \<open>
  The development embeds \<^verbatim>\<open>rss_bot.py\<close>. Every exception the program can raise is a value
  of \<open>py_error\<close>; a function that may raise returns \<open>py_error + 'a\<close> with \<open>Inl\<close> for
  the raised exception. Python's \<^verbatim>\<open>None\<close> is \<open>None\<close> of an option type.
\<close>

datatype py_error =
    KeyError string
  | AttributeError string
  | TypeError string
  | AssertionError string
  | OtherError string

text \<open>
  An f-string field \<^verbatim>\<open>{v}\<close> renders \<^verbatim>\<open>str(v)\<close>: a string as itself and
  \<^verbatim>\<open>None\<close> (what \<^verbatim>\<open>attrib.get\<close> returns for a missing attribute) as the four
  characters \<^verbatim>\<open>None\<close>.
\<close>

definition py_str :: "string option \<Rightarrow> string" where
  "py_str v = (case v of None \<Rightarrow> ''None'' | Some s \<Rightarrow> s)"

text \<open>The single quote character used inside the HTML attribute values.\<close>

definition apostrophe :: string where
  "apostrophe = [CHR 0x27]"

section \<open>Dates and feed entries\<close>

text \<open>
  A \<^verbatim>\<open>datetime\<close> as returned by \<^verbatim>\<open>dateutil.parser.parse\<close>, its calendar date
  (\<^verbatim>\<open>pub_date.date()\<close>: the year, month and day fields as they stand), and the
  nine-field \<^verbatim>\<open>time.struct_time\<close> that feedparser stores under the
  \<^verbatim>\<open>*_parsed\<close> keys.
\<close>

type_synonym date = "int \<times> int \<times> int"

record datetime =
  dt_year :: int
  dt_month :: int
  dt_day :: int
  dt_hour :: int
  dt_minute :: int
  dt_second :: int

definition date_of :: "datetime \<Rightarrow> date" where
  "date_of dt = (dt_year dt, dt_month dt, dt_day dt)"

record struct_time =
  tm_year :: int
  tm_mon :: int
  tm_mday :: int
  tm_hour :: int
  tm_min :: int
  tm_sec :: int
  tm_wday :: int
  tm_yday :: int
  tm_isdst :: int

datatype raw_value = Structured struct_time | RawString string

text \<open>
  A feed entry is a dictionary. The program reads the keys \<^verbatim>\<open>title\<close> and
  \<^verbatim>\<open>link\<close> (strings) and the five date keys; \<open>entry_title e = None\<close> means that the
  key \<^verbatim>\<open>title\<close> is absent, so that \<^verbatim>\<open>entry["title"]\<close> raises
  \<^verbatim>\<open>KeyError\<close>, and likewise for \<open>entry_link\<close>. The remaining keys are the map
  \<open>entry_dates\<close>, whose values are structured times or raw strings.
\<close>

record entry =
  entry_title :: "string option"
  entry_link :: "string option"
  entry_dates :: "string \<rightharpoonup> raw_value"

text \<open>
  The result of \<^verbatim>\<open>feedparser.parse\<close>: \<^verbatim>\<open>feed.get("status")\<close> and
  \<^verbatim>\<open>feed["entries"]\<close>.
\<close>

record feed =
  feed_status :: "int option"
  feed_entries :: "entry list"

section \<open>The date normalizer: \<^verbatim>\<open>published_date\<close>\<close>

definition date_keys :: "string list" where
  "date_keys = [''published_parsed'', ''updated_parsed'', ''pubDate'', ''updated'', ''published'']"

text \<open>
  The loop \<^verbatim>\<open>for k in date_keys\<close>. The parser \<open>P\<close> stands for
  \<^verbatim>\<open>dateutil.parser.parse\<close>. A missing key (\<^verbatim>\<open>KeyError\<close>) and any exception of
  the parser are caught by \<^verbatim>\<open>except Exception: continue\<close>; when no key is left the
  function returns \<^verbatim>\<open>None\<close>.
\<close>

fun published_date_loop ::
  "(raw_value \<Rightarrow> py_error + datetime) \<Rightarrow> entry \<Rightarrow> string list \<Rightarrow> datetime option" where
  "published_date_loop P e [] = None"
| "published_date_loop P e (k # ks) =
     (case entry_dates e k of
        None \<Rightarrow> published_date_loop P e ks
      | Some pub_date \<Rightarrow>
          (case P pub_date of
             Inl err \<Rightarrow> published_date_loop P e ks
           | Inr dt \<Rightarrow> Some dt))"

definition published_date :: "(raw_value \<Rightarrow> py_error + datetime) \<Rightarrow> entry \<Rightarrow> datetime option" where
  "published_date P e = published_date_loop P e date_keys"

text \<open>
  The interface of \<^verbatim>\<open>dateutil.parser.parse\<close>, which is not part of the repository: it
  accepts a string (or a character stream) and raises \<^verbatim>\<open>TypeError\<close> for every other
  argument, a \<^verbatim>\<open>struct_time\<close> among them. Its grammar of date strings is the
  parameter \<open>G\<close>.
\<close>

definition parser_parse :: "(string \<Rightarrow> py_error + datetime) \<Rightarrow> raw_value \<Rightarrow> py_error + datetime" where
  "parser_parse G v =
     (case v of
        RawString s \<Rightarrow> G s
      | Structured t \<Rightarrow> Inl (TypeError ''Parser must be a string or character stream, not struct_time''))"

section \<open>The feed fetcher: \<^verbatim>\<open>get_articles\<close>\<close>

type_synonym url = "string option"

definition list_item :: "string \<Rightarrow> string \<Rightarrow> string" where
  "list_item article_url title =
     ''<li><a href='' @ apostrophe @ article_url @ apostrophe @ ''>'' @ title @ ''</a></li>''"

text \<open>
  The loop over \<^verbatim>\<open>entries\<close>, with the accumulators \<^verbatim>\<open>articles\<close> and
  \<^verbatim>\<open>articles_count\<close>. Nothing in the loop is guarded: a missing \<^verbatim>\<open>title\<close> or
  \<^verbatim>\<open>link\<close> raises \<^verbatim>\<open>KeyError\<close>, and \<^verbatim>\<open>pub_date.date()\<close> on
  \<^verbatim>\<open>None\<close> raises \<^verbatim>\<open>AttributeError\<close>. The date \<open>yesterday\<close> is
  \<^verbatim>\<open>date.today() - timedelta(days=1)\<close>, read from the clock; it is a parameter
  of the model, the same for a whole run.
\<close>

fun articles_loop ::
  "(raw_value \<Rightarrow> py_error + datetime) \<Rightarrow> date \<Rightarrow> entry list \<Rightarrow> string \<times> nat
     \<Rightarrow> py_error + string \<times> nat" where
  "articles_loop P yesterday [] acc = Inr acc"
| "articles_loop P yesterday (e # es) (articles, articles_count) =
     (case entry_title e of
        None \<Rightarrow> Inl (KeyError ''title'')
      | Some title \<Rightarrow>
     (case entry_link e of
        None \<Rightarrow> Inl (KeyError ''link'')
      | Some article_url \<Rightarrow>
     (case published_date P e of
        None \<Rightarrow> Inl (AttributeError ''date'')
      | Some pub_date \<Rightarrow>
          if date_of pub_date = yesterday
          then articles_loop P yesterday es
                 (articles @ list_item article_url title, Suc articles_count)
          else articles_loop P yesterday es (articles, articles_count))))"

text \<open>
  \<^verbatim>\<open>get_articles\<close>. The fetch \<open>F\<close> stands for \<^verbatim>\<open>feedparser.parse\<close>; the list of
  URLs it has been called with is threaded through as a log, so that "a fetch is
  attempted" is a fact about the model. The decorator \<^verbatim>\<open>timer\<close> returns the result
  of the wrapped call unchanged and lets its exceptions through.
\<close>

definition get_articles ::
  "(url \<Rightarrow> py_error + feed) \<Rightarrow> (raw_value \<Rightarrow> py_error + datetime) \<Rightarrow> date \<Rightarrow> url \<Rightarrow> url list
     \<Rightarrow> (py_error + string option) \<times> url list" where
  "get_articles F P yesterday feed_url fetched =
     (let fetched' = fetched @ [feed_url] in
      case F feed_url of
        Inl e \<Rightarrow> (Inr None, fetched')
      | Inr feed \<Rightarrow>
          if feed_status feed = Some 404 then (Inr (Some ''Not Found''), fetched')
          else
            (case articles_loop P yesterday (feed_entries feed) (''<ul>'', 0) of
               Inl e \<Rightarrow> (Inl e, fetched')
             | Inr (articles, articles_count) \<Rightarrow>
                 if articles_count > 0 then (Inr (Some (articles @ ''</ul>'')), fetched')
                 else (Inr None, fetched')))"

section \<open>The outline walker: \<^verbatim>\<open>process_outline\<close> and \<^verbatim>\<open>main\<close>\<close>

text \<open>
  An element of the parsed OPML document, and \<^verbatim>\<open>tree.findall(".//outline")\<close>: all
  descendants of the root with tag \<^verbatim>\<open>outline\<close>, in document order.
\<close>

datatype element = Element (tag: string) (attrib: "string \<rightharpoonup> string") (children: "element list")

fun descendants :: "element \<Rightarrow> element list" where
  "descendants (Element t a cs) = concat (map (\<lambda>c. c # descendants c) cs)"

definition findall_outline :: "element \<Rightarrow> element list" where
  "findall_outline tree = filter (\<lambda>el. tag el = ''outline'') (descendants tree)"

definition process_outline ::
  "(url \<Rightarrow> py_error + feed) \<Rightarrow> (raw_value \<Rightarrow> py_error + datetime) \<Rightarrow> date \<Rightarrow> element \<Rightarrow> url list
     \<Rightarrow> (py_error + string option) \<times> url list" where
  "process_outline F P yesterday outline fetched =
     (let outline_type = attrib outline ''type'';
          title = attrib outline ''title'';
          url = attrib outline ''xmlUrl''
      in
        if outline_type = Some ''folder''
        then (Inr (Some (''<hr><h1>'' @ py_str title @ ''</h1>'')), fetched)
        else
          (let blog = ''<h2>'' @ py_str title @ ''</h2>'' in
           case get_articles F P yesterday url fetched of
             (Inl e, fetched') \<Rightarrow> (Inl e, fetched')
           | (Inr articles, fetched') \<Rightarrow>
               if articles = Some ''Not found'' then (Inr (Some ''Not Found''), fetched')
               else (case articles of
                       Some a \<Rightarrow> (Inr (Some (blog @ a)), fetched')
                     | None \<Rightarrow> (Inr None, fetched'))))"

definition errors_header :: string where
  "errors_header = ''<hr><h1>Errors</h1>''"

definition error_entry :: "element \<Rightarrow> string" where
  "error_entry outline =
     ''<a src='' @ apostrophe @ py_str (attrib outline ''xmlUrl'') @ apostrophe @ ''>''
       @ py_str (attrib outline ''title'') @ ''</a>''"

text \<open>
  The loop \<^verbatim>\<open>for outline in nodes\<close> of \<^verbatim>\<open>main\<close>, with the accumulators
  \<^verbatim>\<open>report\<close> and \<^verbatim>\<open>errors\<close>.
\<close>

fun main_loop ::
  "(url \<Rightarrow> py_error + feed) \<Rightarrow> (raw_value \<Rightarrow> py_error + datetime) \<Rightarrow> date \<Rightarrow> element list
     \<Rightarrow> string \<times> string \<Rightarrow> url list \<Rightarrow> (py_error + string \<times> string) \<times> url list" where
  "main_loop F P yesterday [] acc fetched = (Inr acc, fetched)"
| "main_loop F P yesterday (outline # nodes) (report, errors) fetched =
     (case process_outline F P yesterday outline fetched of
        (Inl e, fetched') \<Rightarrow> (Inl e, fetched')
      | (Inr blog_articles, fetched') \<Rightarrow>
          if blog_articles = Some ''Not found''
          then main_loop F P yesterday nodes (report, errors @ error_entry outline) fetched'
          else (case blog_articles of
                  Some b \<Rightarrow> main_loop F P yesterday nodes (report @ b, errors) fetched'
                | None \<Rightarrow> main_loop F P yesterday nodes (report, errors) fetched'))"

text \<open>
  \<^verbatim>\<open>main\<close> up to \<^verbatim>\<open>report += errors\<close>: the report that is handed to the mailer.
  \<^verbatim>\<open>load_feeds\<close> returns the tree or \<^verbatim>\<open>None\<close>, on which the assertion fails.
\<close>

definition main_report ::
  "(url \<Rightarrow> py_error + feed) \<Rightarrow> (raw_value \<Rightarrow> py_error + datetime) \<Rightarrow> date \<Rightarrow> element option
     \<Rightarrow> url list \<Rightarrow> (py_error + string) \<times> url list" where
  "main_report F P yesterday tree fetched =
     (case tree of
        None \<Rightarrow> (Inl (AssertionError ''Failed to load the RSS feeds.''), fetched)
      | Some t \<Rightarrow>
          (case main_loop F P yesterday (findall_outline t) ('''', errors_header) fetched of
             (Inl e, fetched') \<Rightarrow> (Inl e, fetched')
           | (Inr (report, errors), fetched') \<Rightarrow> (Inr (report @ errors), fetched')))"

section \<open>The mailer: \<^verbatim>\<open>SmtpMailer.send_email\<close>\<close>

text \<open>
  The SMTP session is external. Each of its steps either succeeds (\<open>None\<close>) or raises
  the given exception: the constructor \<^verbatim>\<open>smtplib.SMTP(server, port)\<close>, which connects,
  then \<^verbatim>\<open>starttls\<close>, \<^verbatim>\<open>login\<close>, \<^verbatim>\<open>sendmail\<close>, and the \<^verbatim>\<open>QUIT\<close> that
  leaving the \<^verbatim>\<open>with\<close> block sends.
\<close>

record smtp_session =
  smtp_connect :: "py_error option"
  smtp_starttls :: "py_error option"
  smtp_login :: "py_error option"
  smtp_sendmail :: "py_error option"
  smtp_quit :: "py_error option"

datatype details = Text string | Exc py_error

record response =
  status_code :: int
  details :: details

text \<open>The body of the \<^verbatim>\<open>try\<close> statement with its \<^verbatim>\<open>except Exception\<close> clause.\<close>

definition send_attempt :: "smtp_session \<Rightarrow> response" where
  "send_attempt S =
     (case smtp_starttls S of
        Some e \<Rightarrow> \<lparr>status_code = 400, details = Exc e\<rparr>
      | None \<Rightarrow>
     (case smtp_login S of
        Some e \<Rightarrow> \<lparr>status_code = 400, details = Exc e\<rparr>
      | None \<Rightarrow>
     (case smtp_sendmail S of
        Some e \<Rightarrow> \<lparr>status_code = 400, details = Exc e\<rparr>
      | None \<Rightarrow> \<lparr>status_code = 201, details = Text ''email sent''\<rparr>)))"

text \<open>
  \<^verbatim>\<open>send_email\<close>: the constructor runs before the \<^verbatim>\<open>try\<close> statement and the exit
  of the \<^verbatim>\<open>with\<close> block after it, so their exceptions reach the caller.
\<close>

definition send_email :: "smtp_session \<Rightarrow> py_error + response" where
  "send_email S =
     (case smtp_connect S of
        Some e \<Rightarrow> Inl e
      | None \<Rightarrow>
          (let response = send_attempt S in
           case smtp_quit S of
             Some e \<Rightarrow> Inl e
           | None \<Rightarrow> Inr response))"

section \<open>Failed sources, as the specification counts them\<close>

text \<open>
  The specification calls a source failed when its fetch raises or its feed reports
  status 404. The predicate follows those words; the program itself has no such test.
\<close>

definition source_failed :: "(url \<Rightarrow> py_error + feed) \<Rightarrow> element \<Rightarrow> bool" where
  "source_failed F outline =
     (attrib outline ''type'' \<noteq> Some ''folder'' \<and>
      (case F (attrib outline ''xmlUrl'') of
         Inl e \<Rightarrow> True
       | Inr fd \<Rightarrow> feed_status fd = Some 404))"

section \<open>Example inputs\<close>

text \<open>
  A run on the first of January 2024 as "yesterday", a date grammar that knows two
  strings, and a handful of feeds: one healthy, one that answers 404, three with a
  malformed first entry; every other URL refuses the connection.
\<close>

definition yesterday_ex :: date where
  "yesterday_ex = (2024, 1, 1)"

definition grammar_ex :: "string \<Rightarrow> py_error + datetime" where
  "grammar_ex s =
     (if s = ''Mon, 01 Jan 2024 10:00:00 GMT''
      then Inr \<lparr>dt_year = 2024, dt_month = 1, dt_day = 1, dt_hour = 10, dt_minute = 0, dt_second = 0\<rparr>
      else if s = ''Sun, 31 Dec 2023 10:00:00 GMT''
      then Inr \<lparr>dt_year = 2023, dt_month = 12, dt_day = 31, dt_hour = 10, dt_minute = 0, dt_second = 0\<rparr>
      else Inl (OtherError ''Unknown string format''))"

definition struct_ex :: struct_time where
  "struct_ex = \<lparr>tm_year = 2024, tm_mon = 1, tm_mday = 2, tm_hour = 10, tm_min = 0, tm_sec = 0,
                 tm_wday = 1, tm_yday = 2, tm_isdst = 0\<rparr>"

definition post_a :: entry where
  "post_a = \<lparr>entry_title = Some ''Post A'', entry_link = Some ''https://x.example/a'',
              entry_dates = [''published'' \<mapsto> RawString ''Mon, 01 Jan 2024 10:00:00 GMT'']\<rparr>"

definition post_b :: entry where
  "post_b = \<lparr>entry_title = Some ''Post B'', entry_link = Some ''https://x.example/b'',
              entry_dates = [''published'' \<mapsto> RawString ''Sun, 31 Dec 2023 10:00:00 GMT'']\<rparr>"

definition conflicting_entry :: entry where
  "conflicting_entry =
     \<lparr>entry_title = Some ''Post C'', entry_link = Some ''https://x.example/c'',
      entry_dates = [''published_parsed'' \<mapsto> Structured struct_ex,
                     ''pubDate'' \<mapsto> RawString ''Mon, 01 Jan 2024 10:00:00 GMT'']\<rparr>"

definition undated_entry :: entry where
  "undated_entry =
     \<lparr>entry_title = Some ''Post D'', entry_link = Some ''https://x.example/d'',
      entry_dates = Map.empty\<rparr>"

definition untitled_entry :: entry where
  "untitled_entry =
     \<lparr>entry_title = None, entry_link = Some ''https://x.example/e'',
      entry_dates = [''published'' \<mapsto> RawString ''Mon, 01 Jan 2024 10:00:00 GMT'']\<rparr>"

definition unlinked_entry :: entry where
  "unlinked_entry =
     \<lparr>entry_title = Some ''Post F'', entry_link = None,
      entry_dates = [''published'' \<mapsto> RawString ''Mon, 01 Jan 2024 10:00:00 GMT'']\<rparr>"

definition post_markup :: entry where
  "post_markup =
     \<lparr>entry_title = Some ''<b>A & B</b>'',
      entry_link = Some (''https://m.example/?q='' @ apostrophe @ ''><i>''),
      entry_dates = [''updated'' \<mapsto> RawString ''Mon, 01 Jan 2024 10:00:00 GMT'']\<rparr>"

definition fetch_ex :: "url \<Rightarrow> py_error + feed" where
  "fetch_ex u =
     (if u = Some ''https://x.example/rss''
      then Inr \<lparr>feed_status = Some 200, feed_entries = [post_a, post_b]\<rparr>
      else if u = Some ''https://gone.example/rss''
      then Inr \<lparr>feed_status = Some 404, feed_entries = []\<rparr>
      else if u = Some ''https://undated.example/rss''
      then Inr \<lparr>feed_status = Some 200, feed_entries = [undated_entry, post_a]\<rparr>
      else if u = Some ''https://untitled.example/rss''
      then Inr \<lparr>feed_status = Some 200, feed_entries = [untitled_entry, post_a]\<rparr>
      else if u = Some ''https://unlinked.example/rss''
      then Inr \<lparr>feed_status = Some 200, feed_entries = [unlinked_entry, post_a]\<rparr>
      else Inl (OtherError ''connection refused''))"

definition fetch_markup :: "url \<Rightarrow> py_error + feed" where
  "fetch_markup u = Inr \<lparr>feed_status = None, feed_entries = [post_b, post_markup]\<rparr>"

definition source_node :: "string \<Rightarrow> string \<Rightarrow> element" where
  "source_node t u =
     Element ''outline'' [''type'' \<mapsto> ''rss'', ''title'' \<mapsto> t, ''xmlUrl'' \<mapsto> u] []"

definition folder_node :: "string \<Rightarrow> element list \<Rightarrow> element" where
  "folder_node t cs = Element ''outline'' [''type'' \<mapsto> ''folder'', ''title'' \<mapsto> t] cs"

definition opml :: "element list \<Rightarrow> element" where
  "opml cs = Element ''opml'' Map.empty [Element ''head'' Map.empty [], Element ''body'' Map.empty cs]"

definition node_blogx :: element where
  "node_blogx = source_node ''BlogX'' ''https://x.example/rss''"

definition node_tech :: element where
  "node_tech = folder_node ''Tech'' [node_blogx]"

definition node_down :: element where
  "node_down = source_node ''BlogY'' ''https://down.example/rss''"

definition node_bare :: element where
  "node_bare = Element ''outline'' [''title'' \<mapsto> ''Untyped''] []"

definition tree_ex :: element where
  "tree_ex = opml [node_tech]"

definition tree_down :: element where
  "tree_down = opml [node_down]"

definition tree_gone :: element where
  "tree_gone = opml [source_node ''BlogZ'' ''https://gone.example/rss'']"

definition tree_undated :: element where
  "tree_undated = opml [source_node ''BlogU'' ''https://undated.example/rss'']"

definition tree_untitled :: element where
  "tree_untitled = opml [source_node ''BlogV'' ''https://untitled.example/rss'']"

definition tree_unlinked :: element where
  "tree_unlinked = opml [source_node ''BlogW'' ''https://unlinked.example/rss'']"

definition session_ok :: smtp_session where
  "session_ok = \<lparr>smtp_connect = None, smtp_starttls = None, smtp_login = None,
                  smtp_sendmail = None, smtp_quit = None\<rparr>"

definition session_refused :: smtp_session where
  "session_refused = session_ok\<lparr>smtp_connect := Some (OtherError ''connection refused'')\<rparr>"

definition session_bad_login :: smtp_session where
  "session_bad_login = session_ok\<lparr>smtp_login := Some (OtherError ''authentication failed'')\<rparr>"

definition session_bad_quit :: smtp_session where
  "session_bad_quit = session_ok\<lparr>smtp_quit := Some (OtherError ''QUIT rejected'')\<rparr>"

lemmas ex_defs = yesterday_ex_def grammar_ex_def struct_ex_def post_a_def post_b_def
  conflicting_entry_def undated_entry_def untitled_entry_def unlinked_entry_def post_markup_def
  fetch_ex_def fetch_markup_def source_node_def folder_node_def opml_def
  node_blogx_def node_tech_def node_down_def node_bare_def tree_ex_def tree_down_def
  tree_gone_def tree_undated_def tree_untitled_def tree_unlinked_def

lemmas session_defs = session_ok_def session_refused_def session_bad_login_def session_bad_quit_def

lemmas code_defs = main_report_def findall_outline_def process_outline_def get_articles_def
  published_date_def date_keys_def parser_parse_def date_of_def list_item_def apostrophe_def
  py_str_def errors_header_def error_entry_def Let_def

section \<open>Auxiliary facts\<close>

text \<open>The traversal reaches every element below the root, at any depth.\<close>

lemma children_in_descendants: "c \<in> set (children t) \<Longrightarrow> c \<in> set (descendants t)"
  by (cases t) auto

lemma descendants_nested:
  "p \<in> set (descendants t) \<Longrightarrow> c \<in> set (descendants p) \<Longrightarrow> c \<in> set (descendants t)"
proof (induction t rule: descendants.induct)
  case (1 tg a cs)
  from "1.prems"(1) obtain d where d: "d \<in> set cs" "p = d \<or> p \<in> set (descendants d)"
    by auto
  from d(2) have "c \<in> set (descendants d)"
  proof
    assume "p = d"
    with "1.prems"(2) show ?thesis by simp
  next
    assume "p \<in> set (descendants d)"
    with "1.IH" d(1) "1.prems"(2) show ?thesis by blast
  qed
  with d(1) show ?case by auto
qed

lemma nested_outline_found:
  assumes "p \<in> set (descendants t)" and "c \<in> set (children p)" and "tag c = ''outline''"
  shows "c \<in> set (findall_outline t)"
proof -
  from assms(2) have "c \<in> set (descendants p)" by (rule children_in_descendants)
  with assms(1) have "c \<in> set (descendants t)" by (rule descendants_nested)
  with assms(3) show ?thesis by (simp add: findall_outline_def)
qed

text \<open>The article list only grows, so it keeps its opening tag.\<close>

lemma articles_loop_prefix:
  "articles_loop P y es (a, n) = Inr (a', n') \<Longrightarrow> \<exists>s. a' = a @ s"
proof (induction es arbitrary: a n)
  case Nil
  then show ?case by simp
next
  case (Cons e es)
  then show ?case
    by (fastforce split: option.splits if_splits)
qed

lemma get_articles_fetched: "snd (get_articles F P y u l) = l @ [u]"
  by (simp add: get_articles_def Let_def split: sum.splits prod.splits)

text \<open>
  \<^verbatim>\<open>get_articles\<close> returns \<^verbatim>\<open>None\<close>, the string \<^verbatim>\<open>Not Found\<close> or a list that
  starts with \<^verbatim>\<open><ul>\<close>; it never returns the string \<^verbatim>\<open>Not found\<close> that
  \<^verbatim>\<open>process_outline\<close> and \<^verbatim>\<open>main\<close> compare with.
\<close>

lemma get_articles_not_sentinel: "fst (get_articles F P y u l) \<noteq> Inr (Some ''Not found'')"
proof -
  have "a @ ''</ul>'' \<noteq> ''Not found''"
    if "articles_loop P y es (''<ul>'', 0) = Inr (a, n)" for es a n
  proof -
    from that obtain s where "a = ''<ul>'' @ s" using articles_loop_prefix by blast
    then show ?thesis by simp
  qed
  then show ?thesis
    by (auto simp: get_articles_def Let_def split: sum.splits prod.splits)
qed

lemma process_outline_not_sentinel:
  "fst (process_outline F P y outline l) \<noteq> Inr (Some ''Not found'')"
proof (cases "attrib outline ''type'' = Some ''folder''")
  case True
  then show ?thesis by (simp add: process_outline_def)
next
  case False
  obtain r l' where g: "get_articles F P y (attrib outline ''xmlUrl'') l = (r, l')"
    by (cases "get_articles F P y (attrib outline ''xmlUrl'') l")
  with get_articles_not_sentinel [of F P y "attrib outline ''xmlUrl''" l]
  have "r \<noteq> Inr (Some ''Not found'')" by simp
  with False g show ?thesis
    by (auto simp: process_outline_def Let_def split: sum.splits option.splits)
qed

text \<open>
  Hence the loop of \<^verbatim>\<open>main\<close> never takes its first branch: \<^verbatim>\<open>errors\<close> leaves the
  loop as it entered, and \<^verbatim>\<open>report\<close> only grows.
\<close>

lemma main_loop_accumulates:
  "main_loop F P y nodes (r, e) l = (Inr (r', e'), l') \<Longrightarrow> e' = e \<and> (\<exists>b. r' = r @ b)"
proof (induction nodes arbitrary: r e l)
  case Nil
  then show ?case by simp
next
  case (Cons outline nodes)
  obtain res l1 where p: "process_outline F P y outline l = (res, l1)"
    by (cases "process_outline F P y outline l")
  with process_outline_not_sentinel [of F P y outline l]
  have ns: "res \<noteq> Inr (Some ''Not found'')" by simp
  show ?case
  proof (cases res)
    case (Inl err)
    with Cons.prems p show ?thesis by simp
  next
    case (Inr blog_articles)
    show ?thesis
    proof (cases blog_articles)
      case None
      with Cons.prems p Inr have "main_loop F P y nodes (r, e) l1 = (Inr (r', e'), l')" by simp
      then show ?thesis by (rule Cons.IH)
    next
      case (Some b)
      with ns Inr have "b \<noteq> ''Not found''" by simp
      with Cons.prems p Inr Some
      have "main_loop F P y nodes (r @ b, e) l1 = (Inr (r', e'), l')" by simp
      then have "e' = e \<and> (\<exists>c. r' = (r @ b) @ c)" by (rule Cons.IH)
      then show ?thesis by auto
    qed
  qed
qed

text \<open>
  The date normalizer for an arbitrary parser: the first key of the list whose value
  exists and parses decides, and when there is none the result is \<^verbatim>\<open>None\<close>.
\<close>

lemma published_date_loop_first:
  assumes "k \<in> set ks" and "entry_dates e k = Some v" and "P v = Inr dt"
    and "\<forall>j \<in> set (takeWhile (\<lambda>j. j \<noteq> k) ks). \<forall>w d. entry_dates e j = Some w \<longrightarrow> P w \<noteq> Inr d"
  shows "published_date_loop P e ks = Some dt"
  using assms
proof (induction ks)
  case Nil
  then show ?case by simp
next
  case (Cons j ks)
  show ?case
  proof (cases "j = k")
    case True
    with Cons.prems show ?thesis by simp
  next
    case False
    with Cons.prems have "k \<in> set ks" by simp
    moreover from False Cons.prems(4)
    have "\<forall>i \<in> set (takeWhile (\<lambda>j. j \<noteq> k) ks). \<forall>w d. entry_dates e i = Some w \<longrightarrow> P w \<noteq> Inr d"
      by simp
    ultimately have ih: "published_date_loop P e ks = Some dt"
      using Cons.IH Cons.prems(2,3) by blast
    from False Cons.prems(4) have "\<forall>w d. entry_dates e j = Some w \<longrightarrow> P w \<noteq> Inr d"
      by simp
    with ih show ?thesis
      by (auto split: option.splits sum.splits)
  qed
qed

lemma published_date_loop_none:
  "(\<forall>k \<in> set ks. \<forall>w d. entry_dates e k = Some w \<longrightarrow> P w \<noteq> Inr d)
     \<Longrightarrow> published_date_loop P e ks = None"
  by (induction ks) (auto split: option.splits sum.splits)

text \<open>
  With the parser of \<^verbatim>\<open>dateutil\<close> a structured time never parses, whatever the
  grammar of strings is.
\<close>

lemma parser_parse_structured: "parser_parse G (Structured t) \<noteq> Inr dt"
  by (simp add: parser_parse_def)

text \<open>The loop of \<^verbatim>\<open>get_articles\<close> on entries that all have a title, a link and a date.\<close>

lemma articles_loop_wellformed:
  assumes "\<forall>e \<in> set es. entry_title e \<noteq> None \<and> entry_link e \<noteq> None \<and> published_date P e \<noteq> None"
  shows "articles_loop P y es (a, n) =
           Inr (a @ concat (map (\<lambda>e. list_item (the (entry_link e)) (the (entry_title e)))
                              (filter (\<lambda>e. date_of (the (published_date P e)) = y) es)),
                n + length (filter (\<lambda>e. date_of (the (published_date P e)) = y) es))"
  using assms
proof (induction es arbitrary: a n)
  case Nil
  then show ?case by simp
next
  case (Cons e es)
  from Cons.prems obtain t u d where
    e: "entry_title e = Some t" "entry_link e = Some u" "published_date P e = Some d"
    by auto
  from Cons.prems have rest:
    "\<forall>e \<in> set es. entry_title e \<noteq> None \<and> entry_link e \<noteq> None \<and> published_date P e \<noteq> None"
    by simp
  show ?case
    using e Cons.IH [OF rest] by simp
qed

text \<open>
  A feed that answers 404: \<^verbatim>\<open>get_articles\<close> returns \<^verbatim>\<open>Not Found\<close>, which
  differs in one letter from the string the callers compare with, so the source gets a
  block in the body of the report and no entry in the error section.
\<close>

lemma not_found_feed_lands_in_body:
  "main_report fetch_ex (parser_parse grammar_ex) yesterday_ex (Some tree_gone) []
     = (Inr ''<h2>BlogZ</h2>Not Found<hr><h1>Errors</h1>'', [Some ''https://gone.example/rss''])"
  by (simp add: ex_defs code_defs)

text \<open>The outline nodes of the example documents.\<close>

lemma findall_tree_ex: "findall_outline tree_ex = [node_tech, node_blogx]"
  by (simp add: findall_outline_def tree_ex_def opml_def node_tech_def folder_node_def
      node_blogx_def source_node_def)

section \<open>The claims\<close>

subsection \<open>C1: a source whose fetch fails\<close>

text \<open>
  Claim C1 says that a source whose fetch fails, or whose feed answers not-found, is
  listed once in the error section. It is not: when the fetch of the only source
  raises, the report is the bare header of the error section, with neither the title
  nor the URL of the source in it.
\<close>

theorem failed_source_missing_from_errors:
  "main_report fetch_ex (parser_parse grammar_ex) yesterday_ex (Some tree_down) []
     = (Inr ''<hr><h1>Errors</h1>'', [Some ''https://down.example/rss''])"
  by (simp add: ex_defs code_defs)

text \<open>
  Claim C1, as amended: for every source node whose fetch raises, processing the node
  does not raise and the run goes on with the next node; the node yields
  \<^verbatim>\<open>None\<close>, as a feed without an article of yesterday does, and adds nothing to the
  report body and nothing to the error section.
\<close>

theorem fetch_raises_yields_none:
  assumes "attrib outline ''type'' \<noteq> Some ''folder''"
    and "F (attrib outline ''xmlUrl'') = Inl err"
  shows "process_outline F P y outline l = (Inr None, l @ [attrib outline ''xmlUrl''])
       \<and> main_loop F P y (outline # nodes) (report, errors) l
           = main_loop F P y nodes (report, errors) (l @ [attrib outline ''xmlUrl''])"
proof -
  from assms(2) have "get_articles F P y (attrib outline ''xmlUrl'') l
      = (Inr None, l @ [attrib outline ''xmlUrl''])"
    by (simp add: get_articles_def)
  with assms(1) have "process_outline F P y outline l = (Inr None, l @ [attrib outline ''xmlUrl''])"
    by (simp add: process_outline_def)
  then show ?thesis by simp
qed

theorem fetch_raises_yields_none_witness:
  "attrib node_down ''type'' \<noteq> Some ''folder''
   \<and> fetch_ex (attrib node_down ''xmlUrl'') = Inl (OtherError ''connection refused'')
   \<and> process_outline fetch_ex (parser_parse grammar_ex) yesterday_ex node_down []
        = (Inr None, [Some ''https://down.example/rss''])
   \<and> main_loop fetch_ex (parser_parse grammar_ex) yesterday_ex [node_down] ('''', errors_header) []
        = (Inr ('''', errors_header), [Some ''https://down.example/rss''])"
proof -
  have h1: "attrib node_down ''type'' \<noteq> Some ''folder''"
    by (simp add: node_down_def source_node_def)
  have h2: "fetch_ex (attrib node_down ''xmlUrl'') = Inl (OtherError ''connection refused'')"
    by (simp add: node_down_def source_node_def fetch_ex_def)
  have u: "attrib node_down ''xmlUrl'' = Some ''https://down.example/rss''"
    by (simp add: node_down_def source_node_def)
  from fetch_raises_yields_none [where outline = node_down and F = fetch_ex
      and P = "parser_parse grammar_ex" and y = yesterday_ex and l = "[]" and nodes = "[]"
      and report = "''''" and errors = errors_header, OF h1 h2]
  show ?thesis using h1 h2 u by simp
qed

subsection \<open>C2: the priority of the date fields\<close>

text \<open>
  Claim C2 says that the date fields are tried in the order of \<open>date_keys\<close> and that a
  structured \<^verbatim>\<open>published_parsed\<close> time wins over a \<^verbatim>\<open>pubDate\<close> string that
  disagrees with it. The order is the one of the list, but the structured time is
  handed to a parser of strings, which rejects it: for an entry whose
  \<^verbatim>\<open>published_parsed\<close> is the second of January 2024 and whose \<^verbatim>\<open>pubDate\<close> is
  the first, the program returns the first of January.
\<close>

theorem structured_time_skipped:
  "entry_dates conflicting_entry ''published_parsed''
     = Some (Structured \<lparr>tm_year = 2024, tm_mon = 1, tm_mday = 2, tm_hour = 10, tm_min = 0,
               tm_sec = 0, tm_wday = 1, tm_yday = 2, tm_isdst = 0\<rparr>)
   \<and> entry_dates conflicting_entry ''pubDate'' = Some (RawString ''Mon, 01 Jan 2024 10:00:00 GMT'')
   \<and> published_date (parser_parse grammar_ex) conflicting_entry
     = Some \<lparr>dt_year = 2024, dt_month = 1, dt_day = 1, dt_hour = 10, dt_minute = 0, dt_second = 0\<rparr>"
  by (simp add: ex_defs code_defs)

subsection \<open>C3: an entry without a date\<close>

text \<open>
  Claim C3 says that an entry whose normalized date is absent is left out of the list
  without an exception. In the program \<^verbatim>\<open>published_date\<close> returns \<^verbatim>\<open>None\<close> for
  such an entry and \<^verbatim>\<open>get_articles\<close> calls \<^verbatim>\<open>.date()\<close> on it: the
  \<^verbatim>\<open>AttributeError\<close> leaves \<^verbatim>\<open>get_articles\<close> and ends the run, and the entry of
  yesterday that follows in the same feed is never reached.
\<close>

theorem undated_entry_aborts_run:
  "published_date (parser_parse grammar_ex) undated_entry = None
   \<and> get_articles fetch_ex (parser_parse grammar_ex) yesterday_ex
         (Some ''https://undated.example/rss'') []
       = (Inl (AttributeError ''date''), [Some ''https://undated.example/rss''])
   \<and> main_report fetch_ex (parser_parse grammar_ex) yesterday_ex (Some tree_undated) []
       = (Inl (AttributeError ''date''), [Some ''https://undated.example/rss''])"
  by (simp add: ex_defs code_defs)

subsection \<open>C4: an entry without a title or a link\<close>

text \<open>
  Claim C4 says that an entry lacking a title or a link is skipped silently. In the
  program \<^verbatim>\<open>entry["title"]\<close> and \<^verbatim>\<open>entry["link"]\<close> are unguarded lookups: the
  \<^verbatim>\<open>KeyError\<close> leaves \<^verbatim>\<open>get_articles\<close> and ends the run.
\<close>

theorem untitled_entry_aborts_run:
  "entry_title untitled_entry = None
   \<and> get_articles fetch_ex (parser_parse grammar_ex) yesterday_ex
         (Some ''https://untitled.example/rss'') []
       = (Inl (KeyError ''title''), [Some ''https://untitled.example/rss''])
   \<and> main_report fetch_ex (parser_parse grammar_ex) yesterday_ex (Some tree_untitled) []
       = (Inl (KeyError ''title''), [Some ''https://untitled.example/rss''])
   \<and> entry_link unlinked_entry = None
   \<and> main_report fetch_ex (parser_parse grammar_ex) yesterday_ex (Some tree_unlinked) []
       = (Inl (KeyError ''link''), [Some ''https://unlinked.example/rss''])"
  by (simp add: ex_defs code_defs)

subsection \<open>C5: the response of the mailer\<close>

text \<open>
  Claim C5 says that every transport exception, a failure to connect included, comes
  back as a response with status 400 and is never raised. The program does so for the
  upgrade to TLS, the login and the send, which stand inside the \<^verbatim>\<open>try\<close>
  statement. The connection is made by the constructor, one line above the
  \<^verbatim>\<open>try\<close>, and the session is closed on leaving the \<^verbatim>\<open>with\<close> block, after
  it: a refused connection is raised to the caller, and so is a rejected
  \<^verbatim>\<open>QUIT\<close>, which discards the response of a send that succeeded.
\<close>

theorem connect_failure_raised:
  "send_email session_refused = Inl (OtherError ''connection refused'')
   \<and> send_email session_bad_quit = Inl (OtherError ''QUIT rejected'')"
  by (simp add: session_defs send_email_def send_attempt_def)

text \<open>
  What the \<^verbatim>\<open>try\<close> statement does cover: once the connection is made, and
  provided that closing the session does not raise, \<^verbatim>\<open>send_email\<close> returns a
  response and raises nothing; the response has \<^verbatim>\<open>status_code\<close> 201 when the
  upgrade to TLS, the login and the send all succeed, and \<^verbatim>\<open>status_code\<close> 400
  with the exception as its details when one of the three raises.
\<close>

theorem send_email_response:
  assumes "smtp_connect S = None" and "smtp_quit S = None"
  shows "\<exists>r. send_email S = Inr r
     \<and> (smtp_starttls S = None \<and> smtp_login S = None \<and> smtp_sendmail S = None
          \<longrightarrow> r = \<lparr>status_code = 201, details = Text ''email sent''\<rparr>)
     \<and> (\<forall>e. smtp_starttls S = Some e
             \<or> smtp_starttls S = None \<and> smtp_login S = Some e
             \<or> smtp_starttls S = None \<and> smtp_login S = None \<and> smtp_sendmail S = Some e
          \<longrightarrow> r = \<lparr>status_code = 400, details = Exc e\<rparr>)"
  using assms by (auto simp: send_email_def send_attempt_def split: option.splits)

theorem send_email_response_witness:
  "smtp_connect session_ok = None \<and> smtp_quit session_ok = None
   \<and> smtp_starttls session_ok = None \<and> smtp_login session_ok = None
   \<and> smtp_sendmail session_ok = None
   \<and> send_email session_ok = Inr \<lparr>status_code = 201, details = Text ''email sent''\<rparr>
   \<and> smtp_connect session_bad_login = None \<and> smtp_quit session_bad_login = None
   \<and> smtp_starttls session_bad_login = None
   \<and> smtp_login session_bad_login = Some (OtherError ''authentication failed'')
   \<and> send_email session_bad_login
        = Inr \<lparr>status_code = 400, details = Exc (OtherError ''authentication failed'')\<rparr>"
proof -
  have a: "smtp_connect session_ok = None" "smtp_quit session_ok = None"
    "smtp_starttls session_ok = None" "smtp_login session_ok = None"
    "smtp_sendmail session_ok = None"
    by (simp_all add: session_defs)
  have b: "smtp_connect session_bad_login = None" "smtp_quit session_bad_login = None"
    "smtp_starttls session_bad_login = None"
    "smtp_login session_bad_login = Some (OtherError ''authentication failed'')"
    by (simp_all add: session_defs)
  from send_email_response [OF a(1,2)] a
  have 1: "send_email session_ok = Inr \<lparr>status_code = 201, details = Text ''email sent''\<rparr>"
    by auto
  from send_email_response [OF b(1,2)] b
  have 2: "send_email session_bad_login
        = Inr \<lparr>status_code = 400, details = Exc (OtherError ''authentication failed'')\<rparr>"
    by auto
  from a b 1 2 show ?thesis by simp
qed

subsection \<open>C6: the trailing error section\<close>

text \<open>
  Claim C6: whenever a run finishes its report, the report is the body followed by the
  header \<^verbatim>\<open><hr><h1>Errors</h1>\<close> and the error entries accumulated by the loop; when
  no source failed, the header is there all the same and nothing follows it.
\<close>

theorem report_ends_with_error_section:
  assumes "main_report F P y (Some t) l = (Inr rep, l')"
  shows "\<exists>body entries.
           main_loop F P y (findall_outline t) ('''', errors_header) l
             = (Inr (body, errors_header @ entries), l')
         \<and> rep = body @ ''<hr><h1>Errors</h1>'' @ entries
         \<and> ((\<forall>outline \<in> set (findall_outline t). \<not> source_failed F outline) \<longrightarrow> entries = [])"
proof -
  from assms obtain body errors where
    m: "main_loop F P y (findall_outline t) ('''', errors_header) l = (Inr (body, errors), l')"
    and r: "rep = body @ errors"
    by (auto simp: main_report_def split: prod.splits sum.splits)
  from main_loop_accumulates [OF m] have "errors = errors_header" by simp
  with m r show ?thesis by (simp add: errors_header_def)
qed

theorem report_ends_with_error_section_witness:
  "main_report fetch_ex (parser_parse grammar_ex) yesterday_ex (Some tree_ex) []
     = (Inr (''<hr><h1>Tech</h1><h2>BlogX</h2><ul><li><a href='' @ apostrophe
              @ ''https://x.example/a'' @ apostrophe @ ''>Post A</a></li></ul><hr><h1>Errors</h1>''),
        [Some ''https://x.example/rss''])
   \<and> findall_outline tree_ex = [node_tech, node_blogx]
   \<and> \<not> source_failed fetch_ex node_tech \<and> \<not> source_failed fetch_ex node_blogx
   \<and> main_loop fetch_ex (parser_parse grammar_ex) yesterday_ex (findall_outline tree_ex)
        ('''', errors_header) []
     = (Inr (''<hr><h1>Tech</h1><h2>BlogX</h2><ul><li><a href='' @ apostrophe
              @ ''https://x.example/a'' @ apostrophe @ ''>Post A</a></li></ul>'', errors_header),
        [Some ''https://x.example/rss''])"
proof -
  have h: "main_report fetch_ex (parser_parse grammar_ex) yesterday_ex (Some tree_ex) []
     = (Inr (''<hr><h1>Tech</h1><h2>BlogX</h2><ul><li><a href='' @ apostrophe
              @ ''https://x.example/a'' @ apostrophe @ ''>Post A</a></li></ul><hr><h1>Errors</h1>''),
        [Some ''https://x.example/rss''])"
    by (simp add: ex_defs code_defs)
  have z: "\<not> source_failed fetch_ex node_tech" "\<not> source_failed fetch_ex node_blogx"
    by (simp_all add: ex_defs source_failed_def)
  from report_ends_with_error_section [OF h] z findall_tree_ex
  obtain body where
    m: "main_loop fetch_ex (parser_parse grammar_ex) yesterday_ex (findall_outline tree_ex)
          ('''', errors_header) [] = (Inr (body, errors_header), [Some ''https://x.example/rss''])"
    and b: "''<hr><h1>Tech</h1><h2>BlogX</h2><ul><li><a href='' @ apostrophe
              @ ''https://x.example/a'' @ apostrophe @ ''>Post A</a></li></ul><hr><h1>Errors</h1>''
            = body @ ''<hr><h1>Errors</h1>''"
    by auto
  from b have "body = ''<hr><h1>Tech</h1><h2>BlogX</h2><ul><li><a href='' @ apostrophe
              @ ''https://x.example/a'' @ apostrophe @ ''>Post A</a></li></ul>''"
    by (simp add: apostrophe_def)
  with m h z findall_tree_ex show ?thesis by simp
qed

subsection \<open>C7: folder nodes\<close>

text \<open>
  Claim C7: for every outline node whose type is \<^verbatim>\<open>folder\<close>, wherever it stands in
  the document, processing the node fetches nothing (the log of fetches is unchanged)
  and yields exactly \<^verbatim>\<open><hr><h1>\<close>, the title and \<^verbatim>\<open></h1>\<close>, which the loop of
  \<^verbatim>\<open>main\<close> appends to the report. By \<open>nested_outline_found\<close> the traversal reaches
  the node at any depth.
\<close>

theorem folder_emits_header_without_fetch:
  assumes "attrib outline ''type'' = Some ''folder''"
  shows "process_outline F P y outline l
           = (Inr (Some (''<hr><h1>'' @ py_str (attrib outline ''title'') @ ''</h1>'')), l)
       \<and> main_loop F P y (outline # nodes) (report, errors) l
           = main_loop F P y nodes
               (report @ ''<hr><h1>'' @ py_str (attrib outline ''title'') @ ''</h1>'', errors) l"
  using assms by (simp add: process_outline_def)

theorem folder_emits_header_without_fetch_witness:
  "attrib node_tech ''type'' = Some ''folder''
   \<and> node_tech \<in> set (findall_outline tree_ex)
   \<and> process_outline fetch_ex (parser_parse grammar_ex) yesterday_ex node_tech []
       = (Inr (Some ''<hr><h1>Tech</h1>''), [])"
proof -
  have h: "attrib node_tech ''type'' = Some ''folder''"
    by (simp add: node_tech_def folder_node_def)
  have t: "attrib node_tech ''title'' = Some ''Tech''"
    by (simp add: node_tech_def folder_node_def)
  have m: "node_tech \<in> set (findall_outline tree_ex)"
    by (simp add: findall_tree_ex)
  from folder_emits_header_without_fetch [where outline = node_tech and F = fetch_ex
      and P = "parser_parse grammar_ex" and y = yesterday_ex and l = "[]", OF h]
  show ?thesis using h t m by (simp add: py_str_def)
qed

subsection \<open>C9: every other node is a feed source\<close>

text \<open>
  Claim C9: for every outline node whose type is not the string \<^verbatim>\<open>folder\<close>, a node
  without a type or without an \<^verbatim>\<open>xmlUrl\<close> included, the walker calls the fetcher
  once, with the value of \<^verbatim>\<open>xmlUrl\<close> (\<^verbatim>\<open>None\<close> when the attribute is absent), and
  returns what the fetcher returns under the heading of the source.
\<close>

theorem non_folder_is_fetched:
  assumes "attrib outline ''type'' \<noteq> Some ''folder''"
  shows "snd (process_outline F P y outline l) = l @ [attrib outline ''xmlUrl'']
       \<and> fst (process_outline F P y outline l)
           = (case fst (get_articles F P y (attrib outline ''xmlUrl'') l) of
                Inl e \<Rightarrow> Inl e
              | Inr None \<Rightarrow> Inr None
              | Inr (Some a) \<Rightarrow>
                  Inr (Some (''<h2>'' @ py_str (attrib outline ''title'') @ ''</h2>'' @ a)))"
proof -
  obtain r k where g: "get_articles F P y (attrib outline ''xmlUrl'') l = (r, k)"
    by (cases "get_articles F P y (attrib outline ''xmlUrl'') l")
  with get_articles_fetched [of F P y "attrib outline ''xmlUrl''" l]
  have k: "k = l @ [attrib outline ''xmlUrl'']" by simp
  from g get_articles_not_sentinel [of F P y "attrib outline ''xmlUrl''" l]
  have ns: "r \<noteq> Inr (Some ''Not found'')" by simp
  from assms g k ns show ?thesis
    by (auto simp: process_outline_def Let_def split: sum.splits option.splits)
qed

theorem non_folder_is_fetched_witness:
  "attrib node_bare ''type'' = None
   \<and> attrib node_bare ''xmlUrl'' = None
   \<and> snd (process_outline fetch_ex (parser_parse grammar_ex) yesterday_ex node_bare []) = [None]"
proof -
  have t: "attrib node_bare ''type'' = None" by (simp add: node_bare_def)
  then have h: "attrib node_bare ''type'' \<noteq> Some ''folder''" by simp
  have u: "attrib node_bare ''xmlUrl'' = None" by (simp add: node_bare_def)
  from non_folder_is_fetched [where outline = node_bare and F = fetch_ex
      and P = "parser_parse grammar_ex" and y = yesterday_ex and l = "[]", OF h]
  show ?thesis using t u by simp
qed

subsection \<open>C10: titles and links are not escaped\<close>

text \<open>
  Claim C10: when the fetch succeeds and every entry has a title, a link and a date,
  the list that \<^verbatim>\<open>get_articles\<close> returns is \<^verbatim>\<open><ul>\<close>, then for every entry of
  yesterday, in the order of the feed, the link and the title placed unchanged into
  \<^verbatim>\<open><li><a href='LINK'>TITLE</a></li>\<close>, then \<^verbatim>\<open></ul>\<close>. Markup and quotes in a
  title or a link therefore reach the report as they are.
\<close>

theorem kept_entries_rendered_verbatim:
  assumes "F u = Inr fd" and "feed_status fd \<noteq> Some 404"
    and "\<forall>e \<in> set (feed_entries fd).
           entry_title e \<noteq> None \<and> entry_link e \<noteq> None \<and> published_date P e \<noteq> None"
    and "filter (\<lambda>e. date_of (the (published_date P e)) = y) (feed_entries fd) \<noteq> []"
  shows "get_articles F P y u l =
           (Inr (Some (''<ul>''
              @ concat (map (\<lambda>e. ''<li><a href='' @ apostrophe @ the (entry_link e) @ apostrophe
                                   @ ''>'' @ the (entry_title e) @ ''</a></li>'')
                          (filter (\<lambda>e. date_of (the (published_date P e)) = y) (feed_entries fd)))
              @ ''</ul>'')),
            l @ [u])"
proof -
  let ?kept = "filter (\<lambda>e. date_of (the (published_date P e)) = y) (feed_entries fd)"
  from assms(4) have pos: "0 < length ?kept" by simp
  from articles_loop_wellformed [OF assms(3), of y "''<ul>''" 0]
  have "articles_loop P y (feed_entries fd) (''<ul>'', 0) =
          Inr (''<ul>'' @ concat (map (\<lambda>e. list_item (the (entry_link e)) (the (entry_title e))) ?kept),
               length ?kept)"
    by simp
  with assms(1,2) pos show ?thesis
    by (simp add: get_articles_def list_item_def)
qed

theorem kept_entries_rendered_verbatim_witness:
  "fetch_markup (Some ''https://m.example/rss'')
     = Inr \<lparr>feed_status = None, feed_entries = [post_b, post_markup]\<rparr>
   \<and> entry_title post_markup = Some ''<b>A & B</b>''
   \<and> entry_link post_markup = Some (''https://m.example/?q='' @ apostrophe @ ''><i>'')
   \<and> get_articles fetch_markup (parser_parse grammar_ex) yesterday_ex (Some ''https://m.example/rss'') []
     = (Inr (Some (''<ul><li><a href='' @ apostrophe @ ''https://m.example/?q='' @ apostrophe
                    @ ''><i>'' @ apostrophe @ ''><b>A & B</b></a></li></ul>'')),
        [Some ''https://m.example/rss''])"
proof -
  let ?P = "parser_parse grammar_ex"
  let ?fd = "\<lparr>feed_status = None, feed_entries = [post_b, post_markup]\<rparr>"
  have pb: "published_date ?P post_b
      = Some \<lparr>dt_year = 2023, dt_month = 12, dt_day = 31, dt_hour = 10, dt_minute = 0, dt_second = 0\<rparr>"
    by (simp add: ex_defs code_defs)
  have pm: "published_date ?P post_markup
      = Some \<lparr>dt_year = 2024, dt_month = 1, dt_day = 1, dt_hour = 10, dt_minute = 0, dt_second = 0\<rparr>"
    by (simp add: ex_defs code_defs)
  have h1: "fetch_markup (Some ''https://m.example/rss'') = Inr ?fd"
    by (simp add: fetch_markup_def)
  have h2: "feed_status ?fd \<noteq> Some 404" by simp
  have h3: "\<forall>e \<in> set (feed_entries ?fd).
      entry_title e \<noteq> None \<and> entry_link e \<noteq> None \<and> published_date ?P e \<noteq> None"
    using pb pm by (simp add: post_b_def post_markup_def)
  have k: "filter (\<lambda>e. date_of (the (published_date ?P e)) = yesterday_ex) (feed_entries ?fd)
      = [post_markup]"
    using pb pm by (simp add: date_of_def yesterday_ex_def)
  then have h4: "filter (\<lambda>e. date_of (the (published_date ?P e)) = yesterday_ex) (feed_entries ?fd) \<noteq> []"
    by simp
  from kept_entries_rendered_verbatim [where F = fetch_markup and u = "Some ''https://m.example/rss''"
      and fd = ?fd and P = ?P and y = yesterday_ex and l = "[]", OF h1 h2 h3 h4] k h1
  show ?thesis by (simp add: post_markup_def)
qed

end
